theory Spec2Isabelle
  imports Main "HOL-Library.Sublist"
begin

section \<open>The host the script runs on\<close>

text \<open>
  \<^verbatim>\<open>rpc_example/scripts/build_kotlin.py\<close> is a straight-line build script. Everything it
  does is an effect on its host: it prints lines, tests, deletes, creates and copies
  files, and launches external processes. The model makes that host explicit.

  \<^item> A path is the string the script writes; two paths are the same file when they are
    the same string. The file system maps a path to what is there: a regular file with
    its content, or a directory.
  \<^item> \<open>stdout\<close> holds the lines the script itself has printed, oldest first.
  \<^item> \<open>spawned\<close> holds the argument lists handed to \<^verbatim>\<open>subprocess.run\<close>, oldest first.
  \<^item> What an external process does is not the script's: it is a parameter \<open>sh\<close> of the
    model, a function from the argument list and the file system at launch either to the
    exception \<^verbatim>\<open>subprocess.run\<close> raises, or to the exit code and the file system the
    process leaves behind. External processes are assumed to finish.
\<close>

datatype node = File string | Dir

type_synonym filesystem = "string \<rightharpoonup> node"

text \<open>
  Exceptions, as the top-level handler tells them apart: \<^verbatim>\<open>SystemExit\<close> (what
  \<^verbatim>\<open>sys.exit\<close> raises; a \<^verbatim>\<open>BaseException\<close> that is not an \<^verbatim>\<open>Exception\<close>),
  \<^verbatim>\<open>subprocess.CalledProcessError\<close>, and every other \<^verbatim>\<open>Exception\<close>, with its class
  name. Each carries the text \<^verbatim>\<open>str(e)\<close> gives.
\<close>

datatype exn =
    SystemExit string
  | CalledProcessError string
  | Exception string string

record CompletedProcess =
  returncode :: int

record world =
  stdout :: "string list"
  files :: filesystem
  spawned :: "string list list"

type_synonym shell = "string list \<Rightarrow> filesystem \<Rightarrow> exn + (int \<times> filesystem)"

type_synonym 'a result = "(exn + 'a) \<times> world"

text \<open>Sequencing of statements: an exception skips what follows.\<close>

definition and_then :: "'a result \<Rightarrow> ('a \<Rightarrow> world \<Rightarrow> 'b result) \<Rightarrow> 'b result" where
  "and_then r f = (case r of (Inl e, w) \<Rightarrow> (Inl e, w) | (Inr x, w) \<Rightarrow> f x w)"

definition raise :: "exn \<Rightarrow> world \<Rightarrow> 'a result" where
  "raise e w = (Inl e, w)"

definition sys_exit :: "string \<Rightarrow> world \<Rightarrow> 'a result" where
  "sys_exit msg w = raise (SystemExit msg) w"

definition print :: "string \<Rightarrow> world \<Rightarrow> world" where
  "print line w = w\<lparr>stdout := stdout w @ [line]\<rparr>"

subsection \<open>Strings\<close>

text \<open>\<^verbatim>\<open>sep.join(xs)\<close>.\<close>

fun join :: "string \<Rightarrow> string list \<Rightarrow> string" where
  "join sep [] = []"
| "join sep [x] = x"
| "join sep (x # y # ys) = x @ sep @ join sep (y # ys)"

text \<open>
  \<^verbatim>\<open>str.lower()\<close> on the ASCII letters. A string here is a list of bytes. Python also
  lowers letters beyond ASCII, but no string with such a letter lowers to \<^verbatim>\<open>darwin\<close>,
  \<^verbatim>\<open>linux\<close> or \<^verbatim>\<open>windows\<close>, so the comparisons in \<^verbatim>\<open>get_lib_extension\<close> come out
  the same.
\<close>

definition lower_char :: "char \<Rightarrow> char" where
  "lower_char c =
     (case map_of (zip ''ABCDEFGHIJKLMNOPQRSTUVWXYZ'' ''abcdefghijklmnopqrstuvwxyz'') c of
        None \<Rightarrow> c
      | Some d \<Rightarrow> d)"

definition lower :: "string \<Rightarrow> string" where
  "lower s = map lower_char s"

definition dquote :: string where
  "dquote = [CHR 0x22]"

definition squote :: string where
  "squote = [CHR 0x27]"

subsection \<open>Paths and files\<close>

text \<open>
  \<^verbatim>\<open>os.path.join(a, b)\<close>, \<^verbatim>\<open>os.path.basename\<close> and \<^verbatim>\<open>os.path.dirname\<close>, with \<^verbatim>\<open>/\<close> as
  the separator. (On Windows \<^verbatim>\<open>os.path.join\<close> writes a backslash, which names the same
  directory there; every other path of the script is written with \<^verbatim>\<open>/\<close> on every
  platform.)
\<close>

definition path_join :: "string \<Rightarrow> string \<Rightarrow> string" where
  "path_join a b =
     (if b \<noteq> [] \<and> hd b = CHR ''/'' then b
      else if a = [] \<or> last a = CHR ''/'' then a @ b
      else a @ ''/'' @ b)"

definition basename :: "string \<Rightarrow> string" where
  "basename p = rev (takeWhile (\<lambda>c. c \<noteq> CHR ''/'') (rev p))"

definition dirname :: "string \<Rightarrow> string" where
  "dirname p =
     (let head = rev (dropWhile (\<lambda>c. c \<noteq> CHR ''/'') (rev p)) in
      if head \<noteq> [] \<and> \<not> list_all (\<lambda>c. c = CHR ''/'') head
      then rev (dropWhile (\<lambda>c. c = CHR ''/'') (rev head))
      else head)"

text \<open>The directories above a path: what stands before each of its separators.\<close>

fun ancestors :: "string \<Rightarrow> string \<Rightarrow> string list" where
  "ancestors seen [] = []"
| "ancestors seen (c # cs) =
     (if c = CHR ''/'' \<and> seen \<noteq> [] then [seen] else []) @ ancestors (seen @ [c]) cs"

text \<open>The current directory and the root are always there.\<close>

definition is_dir :: "filesystem \<Rightarrow> string \<Rightarrow> bool" where
  "is_dir fs p = (p = [] \<or> p = ''.'' \<or> p = ''/'' \<or> fs p = Some Dir)"

definition is_file :: "filesystem \<Rightarrow> string \<Rightarrow> bool" where
  "is_file fs p = (case fs p of Some (File c) \<Rightarrow> True | _ \<Rightarrow> False)"

text \<open>
  The subclasses of \<^verbatim>\<open>OSError\<close> the file operations raise, with the text CPython gives
  them on Linux. All of them are of class \<^verbatim>\<open>Exception\<close>, which is all the script tells.
\<close>

definition os_error :: "string \<Rightarrow> string \<Rightarrow> string \<Rightarrow> string \<Rightarrow> exn" where
  "os_error cls errno strerror p =
     Exception cls (''[Errno '' @ errno @ ''] '' @ strerror @ '': '' @ squote @ p @ squote)"

definition FileNotFoundError :: "string \<Rightarrow> exn" where
  "FileNotFoundError p = os_error ''FileNotFoundError'' ''2'' ''No such file or directory'' p"

definition NotADirectoryError :: "string \<Rightarrow> exn" where
  "NotADirectoryError p = os_error ''NotADirectoryError'' ''20'' ''Not a directory'' p"

definition IsADirectoryError :: "string \<Rightarrow> exn" where
  "IsADirectoryError p = os_error ''IsADirectoryError'' ''21'' ''Is a directory'' p"

definition FileExistsError :: "string \<Rightarrow> exn" where
  "FileExistsError p = os_error ''FileExistsError'' ''17'' ''File exists'' p"

text \<open>\<^verbatim>\<open>os.path.exists(p)\<close>.\<close>

definition path_exists :: "string \<Rightarrow> world \<Rightarrow> bool" where
  "path_exists p w = (files w p \<noteq> None)"

text \<open>
  \<^verbatim>\<open>shutil.rmtree(p)\<close>: the directory and everything below it goes. \<open>under p q\<close> says that
  \<open>q\<close> is \<open>p\<close> or a path below it.
\<close>

definition under :: "string \<Rightarrow> string \<Rightarrow> bool" where
  "under p q = (q = p \<or> prefix (p @ ''/'') q)"

definition rmtree :: "string \<Rightarrow> world \<Rightarrow> unit result" where
  "rmtree p w =
     (case files w p of
        None \<Rightarrow> raise (FileNotFoundError p) w
      | Some (File c) \<Rightarrow> raise (NotADirectoryError p) w
      | Some Dir \<Rightarrow> (Inr (), w\<lparr>files := (\<lambda>q. if under p q then None else files w q)\<rparr>))"

text \<open>\<^verbatim>\<open>os.remove(p)\<close>: regular files only; a directory is refused.\<close>

definition remove :: "string \<Rightarrow> world \<Rightarrow> unit result" where
  "remove p w =
     (case files w p of
        None \<Rightarrow> raise (FileNotFoundError p) w
      | Some Dir \<Rightarrow> raise (IsADirectoryError p) w
      | Some (File c) \<Rightarrow> (Inr (), w\<lparr>files := (files w)(p := None)\<rparr>))"

text \<open>
  \<^verbatim>\<open>os.makedirs(p)\<close>: the directory and every missing directory above it. It fails when
  the path is there already, or when a regular file stands in the way.
\<close>

definition makedirs :: "string \<Rightarrow> world \<Rightarrow> unit result" where
  "makedirs p w =
     (if path_exists p w then raise (FileExistsError p) w
      else if list_ex (is_file (files w)) (ancestors [] p) then raise (NotADirectoryError p) w
      else (Inr (), w\<lparr>files :=
              fold (\<lambda>d fs. fs(d \<mapsto> Dir))
                (filter (\<lambda>d. \<not> is_dir (files w) d) (ancestors [] p) @ [p]) (files w)\<rparr>))"

text \<open>
  \<^verbatim>\<open>shutil.copy(src, dst)\<close>: into \<open>dst\<close> when that is a directory, over \<open>dst\<close> otherwise;
  the directory written to must be there. It returns the path written.
\<close>

definition copy :: "string \<Rightarrow> string \<Rightarrow> world \<Rightarrow> string result" where
  "copy src dst w =
     (case files w src of
        None \<Rightarrow> raise (FileNotFoundError src) w
      | Some Dir \<Rightarrow> raise (IsADirectoryError src) w
      | Some (File content) \<Rightarrow>
          (let target = (if files w dst = Some Dir then path_join dst (basename src) else dst) in
           if target = src
             then raise (Exception ''SameFileError''
               (squote @ src @ squote @ '' and '' @ squote @ target @ squote @ '' are the same file'')) w
           else if files w target = Some Dir then raise (IsADirectoryError target) w
           else if \<not> is_dir (files w) (dirname target) then raise (FileNotFoundError target) w
           else (Inr target, w\<lparr>files := (files w)(target \<mapsto> File content)\<rparr>)))"

text \<open>
  \<^verbatim>\<open>subprocess.run(command, shell=True)\<close>: the launch is recorded, the process acts on the
  file system, and its exit code comes back in a \<^verbatim>\<open>CompletedProcess\<close>.
\<close>

definition subprocess_run :: "shell \<Rightarrow> string list \<Rightarrow> world \<Rightarrow> CompletedProcess result" where
  "subprocess_run sh command w =
     (let w1 = w\<lparr>spawned := spawned w @ [command]\<rparr> in
      case sh command (files w) of
        Inl e \<Rightarrow> raise e w1
      | Inr (rc, fs) \<Rightarrow> (Inr \<lparr>returncode = rc\<rparr>, w1\<lparr>files := fs\<rparr>))"

text \<open>\<^verbatim>\<open>os.getenv(key, default)\<close>.\<close>

definition getenv :: "(string \<rightharpoonup> string) \<Rightarrow> string \<Rightarrow> string \<Rightarrow> string" where
  "getenv environ key fallback = (case environ key of None \<Rightarrow> fallback | Some v \<Rightarrow> v)"

section \<open>The script\<close>

subsection \<open>Constants\<close>

definition KOTLINC :: string where
  "KOTLINC = ''kotlinc.bat''"

definition CLASSPATH :: "(string \<rightharpoonup> string) \<Rightarrow> string" where
  "CLASSPATH environ =
     getenv environ ''CLASSPATH''
       ''./rpc_example/kotlin/vendor/jna.jar;./rpc_example/kotlin/vendor/kotlinx-coroutines.jar''"

definition LIB_NAME :: string where
  "LIB_NAME = ''rpc_example''"

definition TARGET_DIR :: string where
  "TARGET_DIR = ''./target/release''"

definition KOTLIN_OUT_DIR :: string where
  "KOTLIN_OUT_DIR = ''./rpc_example/kotlin''"

subsection \<open>\<^verbatim>\<open>run_command\<close>\<close>

definition run_command :: "shell \<Rightarrow> string list \<Rightarrow> bool \<Rightarrow> world \<Rightarrow> CompletedProcess option result" where
  "run_command sh command print_only w =
     (let w1 = print (''[COMMAND] '' @ join '' '' command) w in
      if print_only then (Inr None, w1)
      else and_then (subprocess_run sh command w1) (\<lambda>r w2. (Inr (Some r), w2)))"

subsection \<open>\<^verbatim>\<open>get_lib_extension\<close>\<close>

text \<open>\<open>system\<close> is what \<^verbatim>\<open>platform.system()\<close> returns on the host.\<close>

definition get_lib_extension :: "string \<Rightarrow> world \<Rightarrow> string result" where
  "get_lib_extension system w =
     (let current_os = lower system in
      if current_os = ''darwin'' then (Inr ''dylib'', w)
      else if current_os = ''linux'' then (Inr ''so'', w)
      else if current_os = ''windows'' then (Inr ''dll'', w)
      else sys_exit ''Unknown OS. Supported OS: mac, linux, windows.'' w)"

subsection \<open>\<^verbatim>\<open>build_library\<close>\<close>

definition build_library_command :: "string list" where
  "build_library_command = [''cargo'', ''build'', ''-p'', ''rpc_example'', ''--release'']"

definition build_library :: "shell \<Rightarrow> world \<Rightarrow> unit result" where
  "build_library sh w =
     (let w1 = print ''[INFO] Building library...'' w in
      and_then (run_command sh build_library_command False w1) (\<lambda>result w2.
        case result of
          None \<Rightarrow> raise (Exception ''AttributeError''
                    (squote @ ''NoneType'' @ squote @ '' object has no attribute ''
                      @ squote @ ''returncode'' @ squote)) w2
        | Some r \<Rightarrow>
            if returncode r \<noteq> 0 then sys_exit ''Failed to build library'' w2
            else (Inr (), w2)))"

subsection \<open>\<^verbatim>\<open>generate_binding\<close>\<close>

definition generate_binding_command :: "string \<Rightarrow> string list" where
  "generate_binding_command lib_extension =
     [''cargo'', ''run'', ''-p'', ''rpc_example'', ''--features=uniffi/cli'', ''--bin'',
      ''uniffi-bindgen'', ''generate'',
      ''--library'', TARGET_DIR @ ''/'' @ LIB_NAME @ ''.'' @ lib_extension,
      ''--language'', ''kotlin'', ''--out-dir'', KOTLIN_OUT_DIR]"

definition generate_binding :: "shell \<Rightarrow> string \<Rightarrow> world \<Rightarrow> unit result" where
  "generate_binding sh lib_extension w =
     (let w1 = print ''[INFO] Generating Kotlin binding...'' w;
          kotlin_lib_path = path_join KOTLIN_OUT_DIR LIB_NAME in
      and_then (if path_exists kotlin_lib_path w1 then rmtree kotlin_lib_path w1 else (Inr (), w1))
        (\<lambda>_ w2.
      and_then (run_command sh (generate_binding_command lib_extension) False w2)
        (\<lambda>_ w3. (Inr (), w3))))"

subsection \<open>\<^verbatim>\<open>copy_cdylib\<close>\<close>

definition copy_cdylib :: "string \<Rightarrow> world \<Rightarrow> unit result" where
  "copy_cdylib lib_extension w =
     (let w1 = print ''[INFO] Copying cdylib to output directory...'' w;
          src = TARGET_DIR @ ''/'' @ LIB_NAME @ ''.'' @ lib_extension;
          dest = KOTLIN_OUT_DIR @ ''/'' @ LIB_NAME @ ''.'' @ lib_extension;
          w2 = print (''[COMMAND] cp '' @ src @ '' '' @ dest) w1 in
      and_then (copy src dest w2) (\<lambda>_ w3. (Inr (), w3)))"

subsection \<open>\<^verbatim>\<open>build_jar\<close>\<close>

definition jar_file :: string where
  "jar_file = KOTLIN_OUT_DIR @ ''/rpc_example.jar''"

definition build_jar_command :: "(string \<rightharpoonup> string) \<Rightarrow> string list" where
  "build_jar_command environ =
     [KOTLINC, ''-Werror'', ''-d'', jar_file,
      KOTLIN_OUT_DIR @ ''/uniffi/rpc_example/rpc_example.kt'',
      ''-classpath'', dquote @ CLASSPATH environ @ dquote]"

definition build_jar :: "shell \<Rightarrow> (string \<rightharpoonup> string) \<Rightarrow> world \<Rightarrow> unit result" where
  "build_jar sh environ w =
     (let w1 = print ''[INFO] Building Kotlin JAR...'' w in
      and_then (if path_exists jar_file w1 then remove jar_file w1 else (Inr (), w1))
        (\<lambda>_ w2.
      and_then (run_command sh (build_jar_command environ) True w2)
        (\<lambda>_ w3. (Inr (), w3))))"

subsection \<open>\<^verbatim>\<open>run_tests\<close>\<close>

definition run_tests_command :: "(string \<rightharpoonup> string) \<Rightarrow> string \<Rightarrow> string list" where
  "run_tests_command environ test_name =
     [KOTLINC, ''-Werror'', ''-J-ea'', ''-classpath'',
      dquote @ CLASSPATH environ @ '';'' @ KOTLIN_OUT_DIR @ ''/rpc_example.jar;''
        @ KOTLIN_OUT_DIR @ dquote,
      ''-script'', ''./rpc_example/tests/'' @ test_name @ ''_test.kts'']"

fun run_tests_loop :: "shell \<Rightarrow> (string \<rightharpoonup> string) \<Rightarrow> string list \<Rightarrow> world \<Rightarrow> unit result" where
  "run_tests_loop sh environ [] w = (Inr (), w)"
| "run_tests_loop sh environ (test_name # rest) w =
     (let w1 = print (''[INFO] Running '' @ test_name @ ''_test.kts ...'') w in
      and_then (run_command sh (run_tests_command environ test_name) True w1)
        (\<lambda>_ w2. run_tests_loop sh environ rest w2))"

definition run_tests :: "shell \<Rightarrow> (string \<rightharpoonup> string) \<Rightarrow> world \<Rightarrow> unit result" where
  "run_tests sh environ w =
     (let w1 = print ''[INFO] Executing tests...'' w;
          test_names = [''blocking''] in
      run_tests_loop sh environ test_names w1)"

subsection \<open>\<^verbatim>\<open>dependencies\<close>\<close>

definition vendor_folder :: string where
  "vendor_folder = KOTLIN_OUT_DIR @ ''/vendor''"

definition jna_url :: string where
  "jna_url = ''https://repo1.maven.org/maven2/net/java/dev/jna/jna/5.14.0/jna-5.14.0.jar''"

definition jna_file :: string where
  "jna_file = vendor_folder @ ''/jna.jar''"

definition kotlinx_coroutines_url :: string where
  "kotlinx_coroutines_url =
     ''https://repo1.maven.org/maven2/org/jetbrains/kotlinx/kotlinx-coroutines-core-jvm/1.6.4/kotlinx-coroutines-core-jvm-1.6.4.jar''"

definition kotlinx_coroutines_file :: string where
  "kotlinx_coroutines_file = vendor_folder @ ''/kotlinx-coroutines.jar''"

definition dependencies :: "shell \<Rightarrow> world \<Rightarrow> unit result" where
  "dependencies sh w =
     and_then (if \<not> path_exists vendor_folder w then makedirs vendor_folder w else (Inr (), w))
       (\<lambda>_ w1.
     and_then
       (if path_exists jna_file w1
        then (Inr None, print (''[INFO] JNA already exists at '' @ jna_file) w1)
        else run_command sh [''curl'', ''-L'', jna_url, ''-o'', jna_file] False w1)
       (\<lambda>_ w2.
     and_then
       (if path_exists kotlinx_coroutines_file w2
        then (Inr None, print (''[INFO] kotlinx-coroutines already exists at ''
                                 @ kotlinx_coroutines_file) w2)
        else run_command sh [''curl'', ''-L'', kotlinx_coroutines_url, ''-o'',
                             kotlinx_coroutines_file] False w2)
       (\<lambda>_ w3. (Inr (), w3))))"

subsection \<open>\<^verbatim>\<open>main\<close>\<close>

definition main :: "shell \<Rightarrow> string \<Rightarrow> (string \<rightharpoonup> string) \<Rightarrow> world \<Rightarrow> unit result" where
  "main sh system environ w =
     and_then (get_lib_extension system w) (\<lambda>lib_extension w1.
     and_then (build_library sh w1) (\<lambda>_ w2.
     and_then (generate_binding sh lib_extension w2) (\<lambda>_ w3.
     and_then (copy_cdylib lib_extension w3) (\<lambda>_ w4.
     and_then (dependencies sh w4) (\<lambda>_ w5.
     and_then (build_jar sh environ w5) (\<lambda>_ w6.
     run_tests sh environ w6))))))"

subsection \<open>The top level\<close>

text \<open>
  The \<^verbatim>\<open>try\<close> statement around \<^verbatim>\<open>main()\<close>: the exception the matching \<^verbatim>\<open>except\<close> clause
  raises in turn, or \<open>None\<close> when no clause matches and the exception goes on as it is.
  \<^verbatim>\<open>SystemExit\<close> is not an \<^verbatim>\<open>Exception\<close>, so neither clause matches it.
\<close>

fun except_clauses :: "exn \<Rightarrow> exn option" where
  "except_clauses (CalledProcessError e) = Some (SystemExit (''[ERROR] Command failed: '' @ e))"
| "except_clauses (Exception cls e) = Some (SystemExit (''[ERROR] An error occurred: '' @ e))"
| "except_clauses (SystemExit msg) = None"

text \<open>
  How the interpreter ends on an exception nothing caught: the exit status and what it
  writes to the error stream. A \<^verbatim>\<open>SystemExit\<close> with a string prints the string and
  gives status 1; anything else prints a traceback and gives status 1.
\<close>

fun interpreter_exit :: "exn \<Rightarrow> int \<times> string list" where
  "interpreter_exit (SystemExit msg) = (1, [msg])"
| "interpreter_exit (CalledProcessError e) =
     (1, [''Traceback (most recent call last):'', ''subprocess.CalledProcessError: '' @ e])"
| "interpreter_exit (Exception cls e) =
     (1, [''Traceback (most recent call last):'', cls @ '': '' @ e])"

text \<open>The script run as a program: the exit status, the error stream, and the host it leaves.\<close>

definition script :: "shell \<Rightarrow> string \<Rightarrow> (string \<rightharpoonup> string) \<Rightarrow> world \<Rightarrow> (int \<times> string list) \<times> world" where
  "script sh system environ w =
     (case main sh system environ w of
        (Inr u, w') \<Rightarrow> ((0, []), w')
      | (Inl e, w') \<Rightarrow>
          (case except_clauses e of
             Some e' \<Rightarrow> (interpreter_exit e', w')
           | None \<Rightarrow> (interpreter_exit e, w')))"

section \<open>Hosts to run the script on\<close>

text \<open>
  A host with a working toolchain. The tools are the external collaborators of the spec's
  section 6 and no part of the repository; here every one of them is installed and does
  what is expected of it: the native build tool builds the library into the target
  directory, the bindings generator writes the Kotlin source from the compiled library,
  the download utility writes the file it is told to fetch, and the compiler writes the
  archive it is told to build from a source that is there, or runs the script it is
  given. The places of the library, the bindings source and the archive are those the
  script itself reads them from in \<^verbatim>\<open>copy_cdylib\<close> and \<^verbatim>\<open>build_jar\<close>. Any other command
  is not found (exit code 127).
\<close>

definition toolchain :: "string \<Rightarrow> shell" where
  "toolchain lib_extension command fs =
     (if command = build_library_command
        then Inr (0, fs(TARGET_DIR \<mapsto> Dir,
                        TARGET_DIR @ ''/'' @ LIB_NAME @ ''.'' @ lib_extension \<mapsto> File ''cdylib''))
      else if command = generate_binding_command lib_extension
        then (if is_file fs (TARGET_DIR @ ''/'' @ LIB_NAME @ ''.'' @ lib_extension)
              then Inr (0, fs(KOTLIN_OUT_DIR @ ''/uniffi'' \<mapsto> Dir,
                              KOTLIN_OUT_DIR @ ''/uniffi/rpc_example'' \<mapsto> Dir,
                              KOTLIN_OUT_DIR @ ''/uniffi/rpc_example/rpc_example.kt''
                                \<mapsto> File ''bindings''))
              else Inr (1, fs))
      else (case command of
              [tool, a1, url, a3, dest] \<Rightarrow>
                if tool = ''curl'' \<and> a1 = ''-L'' \<and> a3 = ''-o''
                then Inr (0, fs(dest \<mapsto> File url))
                else Inr (127, fs)
            | [tool, a1, a2, a3, a4, a5, a6] \<Rightarrow>
                if tool = KOTLINC \<and> a2 = ''-d''
                then (if is_file fs a4 then Inr (0, fs(a3 \<mapsto> File ''archive'')) else Inr (1, fs))
                else if tool = KOTLINC \<and> a5 = ''-script''
                then Inr (0, fs)
                else Inr (127, fs)
            | _ \<Rightarrow> Inr (127, fs)))"

text \<open>A host where every process ends with the same exit code and touches no file.\<close>

definition no_tool :: "int \<Rightarrow> shell" where
  "no_tool rc command fs = Inr (rc, fs)"

text \<open>A checkout with the Kotlin output directory and an empty vendor directory.\<close>

definition fresh_checkout :: world where
  "fresh_checkout =
     \<lparr>stdout = [], files = [KOTLIN_OUT_DIR \<mapsto> Dir, vendor_folder \<mapsto> Dir], spawned = []\<rparr>"

text \<open>The same checkout once both vendor files have been fetched.\<close>

definition vendored_checkout :: world where
  "vendored_checkout =
     \<lparr>stdout = [],
      files = [KOTLIN_OUT_DIR \<mapsto> Dir, vendor_folder \<mapsto> Dir,
               jna_file \<mapsto> File ''jna'', kotlinx_coroutines_file \<mapsto> File ''coroutines''],
      spawned = []\<rparr>"

text \<open>The same checkout with an archive left by an earlier build.\<close>

definition stale_checkout :: world where
  "stale_checkout =
     \<lparr>stdout = [],
      files = [KOTLIN_OUT_DIR \<mapsto> Dir, vendor_folder \<mapsto> Dir,
               jar_file \<mapsto> File ''archive of an earlier build''],
      spawned = []\<rparr>"

text \<open>The fresh checkout once the library has been built for Windows.\<close>

definition built_checkout :: world where
  "built_checkout =
     \<lparr>stdout = [],
      files = [KOTLIN_OUT_DIR \<mapsto> Dir, vendor_folder \<mapsto> Dir, TARGET_DIR \<mapsto> Dir,
               TARGET_DIR @ ''/'' @ LIB_NAME @ ''.dll'' \<mapsto> File ''cdylib''],
      spawned = []\<rparr>"

text \<open>
  From \<open>w\<close> to \<open>w'\<close> processes were launched for the given tools only: the launches
  recorded in \<open>w'\<close> are those of \<open>w\<close> followed by commands whose first word is one of
  the tools.
\<close>

definition launches_only :: "string set \<Rightarrow> world \<Rightarrow> world \<Rightarrow> bool" where
  "launches_only tools w w' =
     (\<exists>cs. spawned w' = spawned w @ cs \<and> list_all (\<lambda>c. c \<noteq> [] \<and> hd c \<in> tools) cs)"

section \<open>Basic facts\<close>

lemma and_then_Inr [simp]: "and_then (Inr x, w) f = f x w"
  by (simp add: and_then_def)

lemma and_then_Inl [simp]: "and_then (Inl e, w) f = (Inl e, w)"
  by (simp add: and_then_def)

lemma lower_literals [simp]:
  "lower ''Darwin'' = ''darwin''" "lower ''Linux'' = ''linux''"
  "lower ''Windows'' = ''windows''" "lower ''Java'' = ''java''"
  by (simp_all add: lower_def lower_char_def)

lemma get_lib_extension_cases:
  "lower system \<in> {''darwin'', ''linux'', ''windows''} \<Longrightarrow>
   \<exists>lib_extension. get_lib_extension system w = (Inr lib_extension, w)"
  by (auto simp: get_lib_extension_def)

lemma paths [simp]:
  "vendor_folder = ''./rpc_example/kotlin/vendor''"
  "jna_file = ''./rpc_example/kotlin/vendor/jna.jar''"
  "kotlinx_coroutines_file = ''./rpc_example/kotlin/vendor/kotlinx-coroutines.jar''"
  "jar_file = ''./rpc_example/kotlin/rpc_example.jar''"
  by (simp_all add: vendor_folder_def jna_file_def kotlinx_coroutines_file_def jar_file_def
      KOTLIN_OUT_DIR_def)

lemma build_library_line:
  "join '' '' build_library_command = ''cargo build -p rpc_example --release''"
  by (simp add: build_library_command_def)

lemma build_library_nonzero:
  assumes "sh build_library_command (files w) = Inr (rc, fs)" and "rc \<noteq> 0"
  shows "build_library sh w =
           (Inl (SystemExit ''Failed to build library''),
            w\<lparr>stdout := stdout w @ [''[INFO] Building library...'',
                                     ''[COMMAND] cargo build -p rpc_example --release''],
              files := fs, spawned := spawned w @ [build_library_command]\<rparr>)"
  using assms
  by (simp add: build_library_def run_command_def subprocess_run_def print_def sys_exit_def
      raise_def Let_def build_library_line)

text \<open>Every step after the Library Builder prints at least one line when it is called.\<close>

lemma later_steps_print:
  "stdout (snd (generate_binding sh lib_extension w)) \<noteq> stdout w"
  "stdout (snd (copy_cdylib lib_extension w)) \<noteq> stdout w"
  "stdout (snd (build_jar sh environ w)) \<noteq> stdout w"
  "stdout (snd (run_tests sh environ w)) \<noteq> stdout w"
  by (auto simp: generate_binding_def copy_cdylib_def build_jar_def run_tests_def
      print_def Let_def rmtree_def remove_def copy_def raise_def run_command_def
      subprocess_run_def and_then_def
      split: option.splits node.splits sum.splits prod.splits if_splits)

lemma fold_mkdir_keeps:
  "fs k \<noteq> None \<Longrightarrow> fold (\<lambda>d fs. fs(d \<mapsto> Dir)) ds fs k \<noteq> None"
  by (induction ds arbitrary: fs) auto

lemma build_jar_command_eq:
  "build_jar_command environ =
     [''kotlinc.bat'', ''-Werror'', ''-d'', ''./rpc_example/kotlin/rpc_example.jar'',
      ''./rpc_example/kotlin/uniffi/rpc_example/rpc_example.kt'', ''-classpath'',
      dquote @ CLASSPATH environ @ dquote]"
  by (simp add: build_jar_command_def KOTLINC_def KOTLIN_OUT_DIR_def)

lemma run_tests_command_eq:
  "run_tests_command environ test_name =
     [''kotlinc.bat'', ''-Werror'', ''-J-ea'', ''-classpath'',
      dquote @ CLASSPATH environ @ '';./rpc_example/kotlin/rpc_example.jar;./rpc_example/kotlin''
        @ dquote,
      ''-script'', ''./rpc_example/tests/'' @ test_name @ ''_test.kts'']"
  by (simp add: run_tests_command_def KOTLINC_def KOTLIN_OUT_DIR_def)

lemma join_build_jar_command:
  "join '' '' (build_jar_command environ) =
     ''kotlinc.bat -Werror -d ./rpc_example/kotlin/rpc_example.jar ./rpc_example/kotlin/uniffi/rpc_example/rpc_example.kt -classpath ''
       @ dquote @ CLASSPATH environ @ dquote"
  by (simp add: build_jar_command_eq)

lemma join_run_tests_command:
  "join '' '' (run_tests_command environ ''blocking'') =
     ''kotlinc.bat -Werror -J-ea -classpath '' @ dquote @ CLASSPATH environ
       @ '';./rpc_example/kotlin/rpc_example.jar;./rpc_example/kotlin'' @ dquote
       @ '' -script ./rpc_example/tests/blocking_test.kts''"
  by (simp add: run_tests_command_eq)

text \<open>\<^verbatim>\<open>run_tests\<close> never fails and only prints.\<close>

lemma run_tests_eq:
  "run_tests sh environ w =
     (Inr (), w\<lparr>stdout := stdout w @
        [''[INFO] Executing tests...'', ''[INFO] Running blocking_test.kts ...'',
         ''[COMMAND] '' @ join '' '' (run_tests_command environ ''blocking'')]\<rparr>)"
  by (simp add: run_tests_def run_command_def print_def Let_def)

text \<open>\<^verbatim>\<open>build_jar\<close> by what is at the archive's path.\<close>

lemma build_jar_eq:
  "build_jar sh environ w =
     (case files w jar_file of
        None \<Rightarrow> (Inr (), w\<lparr>stdout := stdout w @ [''[INFO] Building Kotlin JAR...'',
                   ''[COMMAND] '' @ join '' '' (build_jar_command environ)]\<rparr>)
      | Some (File c) \<Rightarrow>
          (Inr (), w\<lparr>stdout := stdout w @ [''[INFO] Building Kotlin JAR...'',
                   ''[COMMAND] '' @ join '' '' (build_jar_command environ)],
                   files := (files w)(jar_file := None)\<rparr>)
      | Some Dir \<Rightarrow> (Inl (IsADirectoryError jar_file),
                      w\<lparr>stdout := stdout w @ [''[INFO] Building Kotlin JAR...'']\<rparr>))"
  by (simp add: build_jar_def run_command_def print_def Let_def path_exists_def remove_def
      raise_def del: paths split: option.splits node.splits)

lemma and_thenE:
  assumes "and_then r f = (Inr y, w')"
  obtains x w1 where "r = (Inr x, w1)" and "f x w1 = (Inr y, w')"
  using assms by (auto simp: and_then_def split: prod.splits sum.splits)

lemma build_jar_stdout:
  assumes "build_jar sh environ w = (Inr u, w')"
  shows "stdout w' = stdout w @ [''[INFO] Building Kotlin JAR...'',
           ''[COMMAND] '' @ join '' '' (build_jar_command environ)]"
  using assms
  by (auto simp: build_jar_eq simp del: paths split: option.splits node.splits)

text \<open>A run that returns normally has ended with the Package Builder and the Test Runner.\<close>

lemma main_tail:
  assumes "main sh system environ w = (Inr u, w')"
  shows "\<exists>before. stdout w' = before @
          [''[INFO] Building Kotlin JAR...'',
           ''[COMMAND] '' @ join '' '' (build_jar_command environ),
           ''[INFO] Executing tests...'',
           ''[INFO] Running blocking_test.kts ...'',
           ''[COMMAND] '' @ join '' '' (run_tests_command environ ''blocking'')]"
proof -
  from assms obtain w5 w6 where jar: "build_jar sh environ w5 = (Inr (), w6)"
    and tests: "run_tests sh environ w6 = (Inr u, w')"
    unfolding main_def by (elim and_thenE) auto
  from tests have "stdout w' = stdout w6 @ [''[INFO] Executing tests...'',
      ''[INFO] Running blocking_test.kts ...'',
      ''[COMMAND] '' @ join '' '' (run_tests_command environ ''blocking'')]"
    by (auto simp: run_tests_eq)
  with build_jar_stdout [OF jar] show ?thesis
    by simp
qed

lemma runs_ok:
  "fst (main (toolchain ''dll'') ''Windows'' Map.empty fresh_checkout) = Inr ()"
  "fst (main (toolchain ''so'') ''Linux'' Map.empty fresh_checkout) = Inr ()"
  "fst (main (toolchain ''dylib'') ''Darwin'' Map.empty fresh_checkout) = Inr ()"
  by code_simp+

subsection \<open>Which processes a run launches\<close>

lemma launches_only_same: "spawned w' = spawned w \<Longrightarrow> launches_only tools w w'"
  by (simp add: launches_only_def)

lemma launches_only_trans:
  "launches_only tools w w1 \<Longrightarrow> launches_only tools w1 w2 \<Longrightarrow> launches_only tools w w2"
  by (auto simp: launches_only_def)

lemma and_then_launches:
  assumes "launches_only tools w (snd r)"
    and "\<And>x w1. launches_only tools w1 (snd (f x w1))"
  shows "launches_only tools w (snd (and_then r f))"
proof (cases r)
  case (Pair v w1)
  with assms show ?thesis
    by (cases v) (auto intro: launches_only_trans)
qed

lemma run_command_launches:
  "command \<noteq> [] \<Longrightarrow> hd command \<in> tools \<Longrightarrow>
   launches_only tools w (snd (run_command sh command print_only w))"
  by (auto simp: launches_only_def run_command_def subprocess_run_def print_def raise_def
      Let_def split: sum.splits)

lemma print_launches: "launches_only tools w (print line w)"
  by (simp add: launches_only_def print_def)

lemma build_library_launches:
  "launches_only {''cargo'', ''curl''} w (snd (build_library sh w))"
proof -
  have "launches_only {''cargo'', ''curl''} w1 (snd (
      and_then (run_command sh build_library_command False w1) (\<lambda>result w2.
        case result of
          None \<Rightarrow> raise (Exception ''AttributeError''
                    (squote @ ''NoneType'' @ squote @ '' object has no attribute ''
                      @ squote @ ''returncode'' @ squote)) w2
        | Some r \<Rightarrow>
            if returncode r \<noteq> 0 then sys_exit ''Failed to build library'' w2
            else (Inr (), w2))))" for w1
    by (rule and_then_launches)
       (auto simp: build_library_command_def raise_def sys_exit_def launches_only_same
             intro: run_command_launches split: option.splits)
  from launches_only_trans [OF print_launches this] show ?thesis
    by (simp add: build_library_def Let_def)
qed

lemma generate_binding_launches:
  "launches_only {''cargo'', ''curl''} w (snd (generate_binding sh lib_extension w))"
proof -
  have "launches_only {''cargo'', ''curl''} w1 (snd (
      and_then (if path_exists p w1 then rmtree p w1 else (Inr (), w1))
        (\<lambda>_ w2.
      and_then (run_command sh (generate_binding_command lib_extension) False w2)
        (\<lambda>_ w3. (Inr (), w3)))))" for w1 p
    by (intro and_then_launches)
       (auto simp: generate_binding_command_def rmtree_def raise_def launches_only_same
             intro: run_command_launches split: option.splits node.splits)
  from launches_only_trans [OF print_launches this] show ?thesis
    by (simp add: generate_binding_def Let_def)
qed

lemma copy_cdylib_launches:
  "launches_only {''cargo'', ''curl''} w (snd (copy_cdylib lib_extension w))"
  by (rule launches_only_same)
     (simp add: copy_cdylib_def Let_def print_def copy_def raise_def and_then_def
        split: option.splits node.splits)

lemma dependencies_launches:
  "launches_only {''cargo'', ''curl''} w (snd (dependencies sh w))"
  unfolding dependencies_def
  by (intro and_then_launches)
     (auto simp: makedirs_def raise_def launches_only_same print_launches
           simp del: paths intro: run_command_launches)

lemma build_jar_launches:
  "launches_only {''cargo'', ''curl''} w (snd (build_jar sh environ w))"
  by (rule launches_only_same)
     (simp add: build_jar_eq del: paths split: option.splits node.splits)

lemma run_tests_launches:
  "launches_only {''cargo'', ''curl''} w (snd (run_tests sh environ w))"
  by (rule launches_only_same) (simp add: run_tests_eq)

text \<open>
  On no host, for no platform and no environment, does a run launch anything but
  \<^verbatim>\<open>cargo\<close> and \<^verbatim>\<open>curl\<close>: the compiler \<^verbatim>\<open>kotlinc.bat\<close> is never launched.
\<close>

lemma main_launches_only_cargo_and_curl:
  "launches_only {''cargo'', ''curl''} w (snd (main sh system environ w))"
  unfolding main_def
  by (intro and_then_launches build_library_launches generate_binding_launches
      copy_cdylib_launches dependencies_launches build_jar_launches run_tests_launches)
     (simp add: launches_only_def get_lib_extension_def sys_exit_def raise_def Let_def)

text \<open>
  Whatever the generator does not touch, \<^verbatim>\<open>generate_binding\<close> leaves where it is: the
  directory it deletes first, \<^verbatim>\<open>./rpc_example/kotlin/rpc_example\<close>, does not hold the
  bindings source that \<^verbatim>\<open>build_jar\<close> compiles.
\<close>

lemma pre_delete_misses_the_bindings:
  "files (snd (generate_binding (no_tool rc) lib_extension w))
     ''./rpc_example/kotlin/uniffi/rpc_example/rpc_example.kt'' =
   files w ''./rpc_example/kotlin/uniffi/rpc_example/rpc_example.kt''"
  by (simp add: generate_binding_def Let_def print_def path_exists_def rmtree_def raise_def
      run_command_def subprocess_run_def no_tool_def under_def path_join_def KOTLIN_OUT_DIR_def
      LIB_NAME_def split: option.splits node.splits)

section \<open>The Platform Resolver\<close>

text \<open>
  Claim C2. For each of the three recognised operating system identifiers (the lower-cased
  result of \<^verbatim>\<open>platform.system()\<close>), \<^verbatim>\<open>get_lib_extension\<close> returns the documented
  extension: \<^verbatim>\<open>dylib\<close> for \<^verbatim>\<open>darwin\<close>, \<^verbatim>\<open>so\<close> for \<^verbatim>\<open>linux\<close>, \<^verbatim>\<open>dll\<close> for
  \<^verbatim>\<open>windows\<close>. For every other identifier it returns no value: it raises
  \<^verbatim>\<open>SystemExit\<close>, and the script run as a program ends there with exit status 1 and the
  message on the error stream, the host untouched.
\<close>

theorem get_lib_extension_spec:
  "(lower system = ''darwin'' \<longrightarrow> get_lib_extension system w = (Inr ''dylib'', w)) \<and>
   (lower system = ''linux'' \<longrightarrow> get_lib_extension system w = (Inr ''so'', w)) \<and>
   (lower system = ''windows'' \<longrightarrow> get_lib_extension system w = (Inr ''dll'', w)) \<and>
   (lower system \<notin> {''darwin'', ''linux'', ''windows''} \<longrightarrow>
      (\<exists>msg. get_lib_extension system w = (Inl (SystemExit msg), w) \<and>
             script sh system environ w = ((1, [msg]), w)))"
  by (simp add: get_lib_extension_def sys_exit_def raise_def script_def main_def)

theorem get_lib_extension_spec_witness:
  "get_lib_extension ''Darwin'' fresh_checkout = (Inr ''dylib'', fresh_checkout) \<and>
   get_lib_extension ''Linux'' fresh_checkout = (Inr ''so'', fresh_checkout) \<and>
   get_lib_extension ''Windows'' fresh_checkout = (Inr ''dll'', fresh_checkout) \<and>
   (\<exists>msg. get_lib_extension ''Java'' fresh_checkout = (Inl (SystemExit msg), fresh_checkout) \<and>
      script (no_tool 0) ''Java'' Map.empty fresh_checkout = ((1, [msg]), fresh_checkout))"
  using get_lib_extension_spec [of "''Darwin''" fresh_checkout]
        get_lib_extension_spec [of "''Linux''" fresh_checkout]
        get_lib_extension_spec [of "''Windows''" fresh_checkout]
        get_lib_extension_spec [of "''Java''" fresh_checkout "no_tool 0" Map.empty]
  by simp

section \<open>The Command Runner\<close>

text \<open>
  Claim C7. For every argument list, \<^verbatim>\<open>run_command\<close> first prints the line
  \<^verbatim>\<open>[COMMAND]\<close> followed by the arguments joined by spaces, whatever happens next. With
  the dry-run flag set it then returns \<^verbatim>\<open>None\<close> and launches nothing: no launch is
  recorded and no file changes. Otherwise it launches the process, and when the process
  has ended with exit code \<open>rc\<close> it returns a \<^verbatim>\<open>CompletedProcess\<close> whose
  \<^verbatim>\<open>returncode\<close> is \<open>rc\<close>, on the file system the process left.
\<close>

theorem run_command_contract:
  "stdout (snd (run_command sh command print_only w)) =
     stdout w @ [''[COMMAND] '' @ join '' '' command] \<and>
   run_command sh command True w =
     (Inr None, w\<lparr>stdout := stdout w @ [''[COMMAND] '' @ join '' '' command]\<rparr>) \<and>
   (\<forall>rc fs. sh command (files w) = Inr (rc, fs) \<longrightarrow>
      run_command sh command False w =
        (Inr (Some \<lparr>returncode = rc\<rparr>),
         w\<lparr>stdout := stdout w @ [''[COMMAND] '' @ join '' '' command],
           files := fs, spawned := spawned w @ [command]\<rparr>))"
  by (auto simp: run_command_def print_def subprocess_run_def raise_def Let_def
           split: sum.splits)

theorem run_command_contract_witness:
  "run_command (no_tool 3) [''cargo'', ''build''] False fresh_checkout =
     (Inr (Some \<lparr>returncode = 3\<rparr>),
      fresh_checkout\<lparr>stdout := [''[COMMAND] cargo build''], files := files fresh_checkout,
        spawned := [[''cargo'', ''build'']]\<rparr>)"
  using run_command_contract [of "no_tool 3" "[''cargo'', ''build'']" False fresh_checkout]
  by (simp add: no_tool_def fresh_checkout_def)

section \<open>The Library Builder\<close>

text \<open>
  Claim C3. Whenever the platform is one of the three recognised ones, so that the Library
  Builder runs, and its subprocess ends with a non-zero exit code, the run ends there:
  \<^verbatim>\<open>main\<close> is exactly \<^verbatim>\<open>build_library\<close>. It raises \<^verbatim>\<open>SystemExit\<close>; the only lines
  printed are the two of the Library Builder, the only process launched is its own, and
  the file system is as that process left it. So binding generation, artifact copy,
  dependency fetch, package build and test run, each of which would have printed or
  launched something, are never called. The process ends with exit status 1.
\<close>

theorem failed_build_stops_the_run:
  assumes "lower system \<in> {''darwin'', ''linux'', ''windows''}"
    and "sh build_library_command (files w) = Inr (rc, fs)"
    and "rc \<noteq> 0"
  shows "main sh system environ w = build_library sh w \<and>
         main sh system environ w =
           (Inl (SystemExit ''Failed to build library''),
            w\<lparr>stdout := stdout w @ [''[INFO] Building library...'',
                                     ''[COMMAND] cargo build -p rpc_example --release''],
              files := fs, spawned := spawned w @ [build_library_command]\<rparr>) \<and>
         fst (script sh system environ w) = (1, [''Failed to build library''])"
proof -
  obtain lib_extension where ext: "get_lib_extension system w = (Inr lib_extension, w)"
    using get_lib_extension_cases [OF assms(1)] by blast
  note fail = build_library_nonzero [of sh w rc fs, OF assms(2,3)]
  have m: "main sh system environ w = build_library sh w"
    by (simp add: main_def ext fail)
  show ?thesis
    by (simp add: m fail script_def)
qed

theorem failed_build_stops_the_run_witness:
  "main (no_tool 101) ''Linux'' Map.empty fresh_checkout =
     (Inl (SystemExit ''Failed to build library''),
      fresh_checkout\<lparr>stdout := [''[INFO] Building library...'',
                                 ''[COMMAND] cargo build -p rpc_example --release''],
        files := files fresh_checkout,
        spawned := [[''cargo'', ''build'', ''-p'', ''rpc_example'', ''--release'']]\<rparr>) \<and>
   fst (script (no_tool 101) ''Linux'' Map.empty fresh_checkout)
     = (1, [''Failed to build library''])"
proof -
  have os: "lower ''Linux'' \<in> {''darwin'', ''linux'', ''windows''}"
    by simp
  have run: "no_tool 101 build_library_command (files fresh_checkout)
               = Inr (101, files fresh_checkout)"
    by (simp add: no_tool_def)
  have rc: "(101::int) \<noteq> 0"
    by simp
  from failed_build_stops_the_run [where sh = "no_tool 101" and w = fresh_checkout
      and environ = Map.empty, OF os run rc, THEN conjunct2]
  show ?thesis
    by (simp add: fresh_checkout_def build_library_command_def)
qed

section \<open>The Dependency Fetcher\<close>

text \<open>
  Claim C5. When both vendor files, \<^verbatim>\<open>jna.jar\<close> and \<^verbatim>\<open>kotlinx-coroutines.jar\<close>, are already
  there, \<^verbatim>\<open>dependencies\<close> launches no process, so it makes no network request (its only
  way to the network is \<^verbatim>\<open>curl\<close>). With the vendor directory there, as it is on any
  real file system that holds the two files, it does nothing but print the two
  \<^verbatim>\<open>already exists\<close> lines: no file changes and it returns normally.
\<close>

theorem dependencies_cache_hit:
  assumes "path_exists jna_file w" and "path_exists kotlinx_coroutines_file w"
  shows "spawned (snd (dependencies sh w)) = spawned w \<and>
         (path_exists vendor_folder w \<longrightarrow>
            dependencies sh w =
              (Inr (), w\<lparr>stdout := stdout w @
                 [''[INFO] JNA already exists at ./rpc_example/kotlin/vendor/jna.jar'',
                  ''[INFO] kotlinx-coroutines already exists at ./rpc_example/kotlin/vendor/kotlinx-coroutines.jar'']\<rparr>))"
proof (cases "path_exists vendor_folder w")
  case True
  with assms show ?thesis
    by (simp add: dependencies_def print_def path_exists_def)
next
  case False
  show ?thesis
  proof (cases "list_ex (is_file (files w)) (ancestors [] vendor_folder)")
    case True
    with False show ?thesis
      by (simp add: dependencies_def makedirs_def raise_def del: paths)
  next
    case no_file: False
    let ?fs = "fold (\<lambda>d fs. fs(d \<mapsto> Dir))
                 (filter (\<lambda>d. \<not> is_dir (files w) d) (ancestors [] vendor_folder)
                    @ [vendor_folder])
                 (files w)"
    have mk: "makedirs vendor_folder w = (Inr (), w\<lparr>files := ?fs\<rparr>)"
      using False no_file by (simp add: makedirs_def del: paths)
    have "?fs jna_file \<noteq> None" "?fs kotlinx_coroutines_file \<noteq> None"
      using assms by (simp_all only: path_exists_def fold_mkdir_keeps not_False_eq_True)
    then have "path_exists jna_file (w\<lparr>files := ?fs\<rparr>)"
      "path_exists kotlinx_coroutines_file (w\<lparr>files := ?fs, stdout := s\<rparr>)" for s
      by (simp_all add: path_exists_def del: paths)
    with False show ?thesis
      by (simp add: dependencies_def mk print_def del: paths)
  qed
qed

theorem dependencies_cache_hit_witness:
  "dependencies (toolchain ''so'') vendored_checkout =
     (Inr (), vendored_checkout\<lparr>stdout :=
        [''[INFO] JNA already exists at ./rpc_example/kotlin/vendor/jna.jar'',
         ''[INFO] kotlinx-coroutines already exists at ./rpc_example/kotlin/vendor/kotlinx-coroutines.jar'']\<rparr>) \<and>
   spawned (snd (dependencies (toolchain ''so'') vendored_checkout)) = []"
proof -
  have jna: "path_exists jna_file vendored_checkout"
    and coroutines: "path_exists kotlinx_coroutines_file vendored_checkout"
    and vendor: "path_exists vendor_folder vendored_checkout"
    by (simp_all add: vendored_checkout_def path_exists_def)
  from dependencies_cache_hit [OF jna coroutines, of "toolchain ''so''"] vendor
  show ?thesis
    by (simp add: vendored_checkout_def)
qed

section \<open>The Package Builder\<close>

text \<open>
  Claim C6. Whenever \<^verbatim>\<open>build_jar\<close> runs and an archive of the same name is already there,
  that archive is deleted before the compiler's turn: the Command Runner is called for
  the compiler's command on a host where the archive is gone. After the step no file of
  that name is left, nothing else has changed on the file system, and the step returns
  normally.
\<close>

theorem build_jar_deletes_stale_archive:
  assumes "files w jar_file = Some (File old)"
  shows "build_jar sh environ w =
           and_then (run_command sh (build_jar_command environ) True
                       (w\<lparr>stdout := stdout w @ [''[INFO] Building Kotlin JAR...''],
                          files := (files w)(jar_file := None)\<rparr>))
             (\<lambda>_ w'. (Inr (), w')) \<and>
         fst (build_jar sh environ w) = Inr () \<and>
         \<not> path_exists jar_file (snd (build_jar sh environ w)) \<and>
         files (snd (build_jar sh environ w)) = (files w)(jar_file := None)"
  using assms
  by (simp add: build_jar_eq run_command_def print_def Let_def path_exists_def del: paths)

theorem build_jar_deletes_stale_archive_witness:
  "path_exists jar_file stale_checkout \<and>
   fst (build_jar (toolchain ''dll'') Map.empty stale_checkout) = Inr () \<and>
   \<not> path_exists jar_file (snd (build_jar (toolchain ''dll'') Map.empty stale_checkout))"
proof -
  have stale: "files stale_checkout jar_file = Some (File ''archive of an earlier build'')"
    by (simp add: stale_checkout_def)
  from build_jar_deletes_stale_archive [OF stale, THEN conjunct2, of "toolchain ''dll''" Map.empty]
  show ?thesis
    by (simp add: stale_checkout_def path_exists_def)
qed

section \<open>The classpath\<close>

text \<open>
  Claim C8. The classpath string \<^verbatim>\<open>CLASSPATH\<close> is the value of the environment variable
  \<^verbatim>\<open>CLASSPATH\<close> when that is set, and otherwise the default of two entries in the vendor
  directory. Both the Package Builder and the Test Runner use it: it stands, in double
  quotes, after \<^verbatim>\<open>-classpath\<close> in the command each of them builds (the Test Runner adds
  the archive and the output directory to it), and that command is what each of them
  hands to the Command Runner, which prints it.
\<close>

theorem classpath_from_environment:
  "(\<forall>v. environ ''CLASSPATH'' = Some v \<longrightarrow> CLASSPATH environ = v) \<and>
   (environ ''CLASSPATH'' = None \<longrightarrow>
      CLASSPATH environ =
        ''./rpc_example/kotlin/vendor/jna.jar;./rpc_example/kotlin/vendor/kotlinx-coroutines.jar'') \<and>
   build_jar_command environ =
     [''kotlinc.bat'', ''-Werror'', ''-d'', ''./rpc_example/kotlin/rpc_example.jar'',
      ''./rpc_example/kotlin/uniffi/rpc_example/rpc_example.kt'', ''-classpath'',
      dquote @ CLASSPATH environ @ dquote] \<and>
   run_tests_command environ test_name =
     [''kotlinc.bat'', ''-Werror'', ''-J-ea'', ''-classpath'',
      dquote @ CLASSPATH environ @ '';./rpc_example/kotlin/rpc_example.jar;./rpc_example/kotlin''
        @ dquote,
      ''-script'', ''./rpc_example/tests/'' @ test_name @ ''_test.kts''] \<and>
   (fst (build_jar sh environ w) = Inr () \<longrightarrow>
      last (stdout (snd (build_jar sh environ w))) =
        ''[COMMAND] '' @ join '' '' (build_jar_command environ)) \<and>
   last (stdout (snd (run_tests sh environ w))) =
     ''[COMMAND] '' @ join '' '' (run_tests_command environ ''blocking'')"
proof -
  have "fst (build_jar sh environ w) = Inr () \<longrightarrow>
      last (stdout (snd (build_jar sh environ w))) =
        ''[COMMAND] '' @ join '' '' (build_jar_command environ)"
    by (simp add: build_jar_eq IsADirectoryError_def os_error_def del: paths
        split: option.splits node.splits)
  moreover have "last (stdout (snd (run_tests sh environ w))) =
     ''[COMMAND] '' @ join '' '' (run_tests_command environ ''blocking'')"
    by (simp add: run_tests_eq)
  moreover have "(\<forall>v. environ ''CLASSPATH'' = Some v \<longrightarrow> CLASSPATH environ = v) \<and>
   (environ ''CLASSPATH'' = None \<longrightarrow>
      CLASSPATH environ =
        ''./rpc_example/kotlin/vendor/jna.jar;./rpc_example/kotlin/vendor/kotlinx-coroutines.jar'')"
    by (simp add: CLASSPATH_def getenv_def)
  ultimately show ?thesis
    using build_jar_command_eq [of environ] run_tests_command_eq [of environ test_name]
    by blast
qed

theorem classpath_from_environment_witness:
  "CLASSPATH [''CLASSPATH'' \<mapsto> ''libs/jna.jar''] = ''libs/jna.jar'' \<and>
   CLASSPATH Map.empty =
     ''./rpc_example/kotlin/vendor/jna.jar;./rpc_example/kotlin/vendor/kotlinx-coroutines.jar'' \<and>
   last (stdout (snd (build_jar (toolchain ''dll'') [''CLASSPATH'' \<mapsto> ''libs/jna.jar'']
                        fresh_checkout))) =
     ''[COMMAND] kotlinc.bat -Werror -d ./rpc_example/kotlin/rpc_example.jar ./rpc_example/kotlin/uniffi/rpc_example/rpc_example.kt -classpath ''
       @ dquote @ ''libs/jna.jar'' @ dquote"
proof -
  have ok: "fst (build_jar (toolchain ''dll'') [''CLASSPATH'' \<mapsto> ''libs/jna.jar'']
                   fresh_checkout) = Inr ()"
    by (simp add: build_jar_eq fresh_checkout_def KOTLIN_OUT_DIR_def)
  from classpath_from_environment [of "[''CLASSPATH'' \<mapsto> ''libs/jna.jar'']" _
      "toolchain ''dll''" fresh_checkout]
    classpath_from_environment [of Map.empty] ok
  show ?thesis
    by (simp add: join_build_jar_command)
qed

section \<open>The compiler command\<close>

text \<open>
  Claim C10. The command lists that \<^verbatim>\<open>build_jar\<close> and \<^verbatim>\<open>run_tests\<close> build begin with the
  fixed name \<^verbatim>\<open>kotlinc.bat\<close>, whatever the environment, and the name does not vary with
  the operating system: on every platform, a run that gets through all its steps has
  ended by printing the two compiler commands, each beginning with \<^verbatim>\<open>kotlinc.bat\<close>.
\<close>

theorem compiler_is_kotlinc_bat:
  "hd (build_jar_command environ) = ''kotlinc.bat'' \<and>
   hd (run_tests_command environ test_name) = ''kotlinc.bat'' \<and>
   (fst (main sh system environ w) = Inr () \<longrightarrow>
      (\<exists>before. stdout (snd (main sh system environ w)) = before @
          [''[INFO] Building Kotlin JAR...'',
           ''[COMMAND] kotlinc.bat -Werror -d ./rpc_example/kotlin/rpc_example.jar ./rpc_example/kotlin/uniffi/rpc_example/rpc_example.kt -classpath ''
             @ dquote @ CLASSPATH environ @ dquote,
           ''[INFO] Executing tests...'',
           ''[INFO] Running blocking_test.kts ...'',
           ''[COMMAND] kotlinc.bat -Werror -J-ea -classpath '' @ dquote @ CLASSPATH environ
             @ '';./rpc_example/kotlin/rpc_example.jar;./rpc_example/kotlin'' @ dquote
             @ '' -script ./rpc_example/tests/blocking_test.kts'']))"
proof -
  have "\<exists>before. stdout (snd (main sh system environ w)) = before @
          [''[INFO] Building Kotlin JAR...'',
           ''[COMMAND] '' @ join '' '' (build_jar_command environ),
           ''[INFO] Executing tests...'',
           ''[INFO] Running blocking_test.kts ...'',
           ''[COMMAND] '' @ join '' '' (run_tests_command environ ''blocking'')]"
    if "fst (main sh system environ w) = Inr ()"
    using main_tail [of sh system environ w "()" "snd (main sh system environ w)"] that
    by (simp add: prod_eq_iff)
  then show ?thesis
    by (simp add: join_build_jar_command join_run_tests_command build_jar_command_eq
        run_tests_command_eq)
qed

theorem compiler_is_kotlinc_bat_witness:
  "(\<exists>before. stdout (snd (main (toolchain ''dll'') ''Windows'' Map.empty fresh_checkout)) = before @
          [''[INFO] Building Kotlin JAR...'',
           ''[COMMAND] kotlinc.bat -Werror -d ./rpc_example/kotlin/rpc_example.jar ./rpc_example/kotlin/uniffi/rpc_example/rpc_example.kt -classpath ''
             @ dquote @ CLASSPATH Map.empty @ dquote,
           ''[INFO] Executing tests...'',
           ''[INFO] Running blocking_test.kts ...'',
           ''[COMMAND] kotlinc.bat -Werror -J-ea -classpath '' @ dquote @ CLASSPATH Map.empty
             @ '';./rpc_example/kotlin/rpc_example.jar;./rpc_example/kotlin'' @ dquote
             @ '' -script ./rpc_example/tests/blocking_test.kts'']) \<and>
   (\<exists>before. stdout (snd (main (toolchain ''so'') ''Linux'' Map.empty fresh_checkout)) = before @
          [''[INFO] Building Kotlin JAR...'',
           ''[COMMAND] kotlinc.bat -Werror -d ./rpc_example/kotlin/rpc_example.jar ./rpc_example/kotlin/uniffi/rpc_example/rpc_example.kt -classpath ''
             @ dquote @ CLASSPATH Map.empty @ dquote,
           ''[INFO] Executing tests...'',
           ''[INFO] Running blocking_test.kts ...'',
           ''[COMMAND] kotlinc.bat -Werror -J-ea -classpath '' @ dquote @ CLASSPATH Map.empty
             @ '';./rpc_example/kotlin/rpc_example.jar;./rpc_example/kotlin'' @ dquote
             @ '' -script ./rpc_example/tests/blocking_test.kts'']) \<and>
   (\<exists>before. stdout (snd (main (toolchain ''dylib'') ''Darwin'' Map.empty fresh_checkout)) = before @
          [''[INFO] Building Kotlin JAR...'',
           ''[COMMAND] kotlinc.bat -Werror -d ./rpc_example/kotlin/rpc_example.jar ./rpc_example/kotlin/uniffi/rpc_example/rpc_example.kt -classpath ''
             @ dquote @ CLASSPATH Map.empty @ dquote,
           ''[INFO] Executing tests...'',
           ''[INFO] Running blocking_test.kts ...'',
           ''[COMMAND] kotlinc.bat -Werror -J-ea -classpath '' @ dquote @ CLASSPATH Map.empty
             @ '';./rpc_example/kotlin/rpc_example.jar;./rpc_example/kotlin'' @ dquote
             @ '' -script ./rpc_example/tests/blocking_test.kts''])"
  using compiler_is_kotlinc_bat [of Map.empty _ "toolchain ''dll''" "''Windows''" fresh_checkout]
    compiler_is_kotlinc_bat [of Map.empty _ "toolchain ''so''" "''Linux''" fresh_checkout]
    compiler_is_kotlinc_bat [of Map.empty _ "toolchain ''dylib''" "''Darwin''" fresh_checkout]
    runs_ok
  by blast

section \<open>The top-level handler\<close>

text \<open>
  Claim C9 says that every exception a step raises and \<^verbatim>\<open>main\<close> lets through is caught at
  the top level and turned into a formatted message. As stated this fails: on an unknown
  platform \<^verbatim>\<open>get_lib_extension\<close> raises \<^verbatim>\<open>SystemExit\<close>, which leaves \<^verbatim>\<open>main\<close>, matches
  neither \<^verbatim>\<open>except\<close> clause, and ends the process with its own message, not with one
  that starts with \<^verbatim>\<open>[ERROR]\<close>.
\<close>

theorem system_exit_passes_the_handler:
  "fst (main (no_tool 0) ''Java'' Map.empty fresh_checkout) =
     Inl (SystemExit ''Unknown OS. Supported OS: mac, linux, windows.'') \<and>
   except_clauses (SystemExit ''Unknown OS. Supported OS: mac, linux, windows.'') = None \<and>
   fst (script (no_tool 0) ''Java'' Map.empty fresh_checkout) =
     (1, [''Unknown OS. Supported OS: mac, linux, windows.''])"
  by (simp add: main_def script_def get_lib_extension_def sys_exit_def raise_def)

text \<open>
  Claim C9, amended. Whenever \<^verbatim>\<open>main\<close> lets an exception through, the process ends with
  exit status 1 and one message on the error stream, on the host as the failing step
  left it. An exception of class \<^verbatim>\<open>Exception\<close> is caught by exactly one \<^verbatim>\<open>except\<close>
  clause and its message is formatted: \<^verbatim>\<open>[ERROR] Command failed:\<close> and the exception's
  text for a \<^verbatim>\<open>CalledProcessError\<close>, \<^verbatim>\<open>[ERROR] An error occurred:\<close> and the exception's
  text for any other. A \<^verbatim>\<open>SystemExit\<close>, which is what \<^verbatim>\<open>sys.exit\<close> raises in the Platform
  Resolver and the Library Builder, is caught by neither clause: it ends the process
  with its own message as it is.
\<close>

theorem top_level_handler:
  assumes "main sh system environ w = (Inl e, w')"
  shows "case e of
           SystemExit msg \<Rightarrow>
             except_clauses e = None \<and> script sh system environ w = ((1, [msg]), w')
         | CalledProcessError m \<Rightarrow>
             except_clauses e = Some (SystemExit (''[ERROR] Command failed: '' @ m)) \<and>
             script sh system environ w = ((1, [''[ERROR] Command failed: '' @ m]), w')
         | Exception cls m \<Rightarrow>
             except_clauses e = Some (SystemExit (''[ERROR] An error occurred: '' @ m)) \<and>
             script sh system environ w = ((1, [''[ERROR] An error occurred: '' @ m]), w')"
  using assms by (cases e) (simp_all add: script_def)

theorem top_level_handler_witness:
  "fst (script (no_tool 0) ''Linux'' Map.empty fresh_checkout) =
     (1, [''[ERROR] An error occurred: [Errno 2] No such file or directory: ''
            @ squote @ ''./target/release/rpc_example.so'' @ squote])"
proof -
  have "fst (main (no_tool 0) ''Linux'' Map.empty fresh_checkout) =
          Inl (Exception ''FileNotFoundError'' (''[Errno 2] No such file or directory: ''
            @ squote @ ''./target/release/rpc_example.so'' @ squote))"
    by code_simp
  then have "main (no_tool 0) ''Linux'' Map.empty fresh_checkout =
          (Inl (Exception ''FileNotFoundError'' (''[Errno 2] No such file or directory: ''
            @ squote @ ''./target/release/rpc_example.so'' @ squote)),
           snd (main (no_tool 0) ''Linux'' Map.empty fresh_checkout))"
    by (simp add: prod_eq_iff)
  from top_level_handler [OF this] show ?thesis
    by simp
qed

section \<open>The full run\<close>

text \<open>
  Claim C1 says that a full run from an empty vendor directory, with a library build
  that exits zero, leaves one copy of the dynamic library, two vendor files, one
  bindings source file and one built archive, and executes one named test script, the
  command lines echoed in the order of the steps. The run below is such a run, on a
  Windows host where every tool works and \<^verbatim>\<open>CLASSPATH\<close> is not set. It returns normally,
  the library copy, the two vendor files and the bindings source are there, and the
  command lines are echoed in the order of the steps. But \<^verbatim>\<open>build_jar\<close> and \<^verbatim>\<open>run_tests\<close>
  call the Command Runner with the dry-run flag set: the four processes launched are the
  two \<^verbatim>\<open>cargo\<close> and the two \<^verbatim>\<open>curl\<close> ones, the compiler is never launched, no archive
  \<^verbatim>\<open>rpc_example.jar\<close> is there after the run, and no test script was executed.
\<close>

theorem full_run_builds_no_archive:
  "fst (main (toolchain ''dll'') ''Windows'' Map.empty fresh_checkout) = Inr () \<and>
   spawned (snd (main (toolchain ''dll'') ''Windows'' Map.empty fresh_checkout)) =
     [[''cargo'', ''build'', ''-p'', ''rpc_example'', ''--release''],
      [''cargo'', ''run'', ''-p'', ''rpc_example'', ''--features=uniffi/cli'', ''--bin'',
       ''uniffi-bindgen'', ''generate'', ''--library'', ''./target/release/rpc_example.dll'',
       ''--language'', ''kotlin'', ''--out-dir'', ''./rpc_example/kotlin''],
      [''curl'', ''-L'',
       ''https://repo1.maven.org/maven2/net/java/dev/jna/jna/5.14.0/jna-5.14.0.jar'',
       ''-o'', ''./rpc_example/kotlin/vendor/jna.jar''],
      [''curl'', ''-L'',
       ''https://repo1.maven.org/maven2/org/jetbrains/kotlinx/kotlinx-coroutines-core-jvm/1.6.4/kotlinx-coroutines-core-jvm-1.6.4.jar'',
       ''-o'', ''./rpc_example/kotlin/vendor/kotlinx-coroutines.jar'']] \<and>
   map (files (snd (main (toolchain ''dll'') ''Windows'' Map.empty fresh_checkout)))
     [''./rpc_example/kotlin/rpc_example.dll'',
      ''./rpc_example/kotlin/vendor/jna.jar'',
      ''./rpc_example/kotlin/vendor/kotlinx-coroutines.jar'',
      ''./rpc_example/kotlin/uniffi/rpc_example/rpc_example.kt'',
      ''./rpc_example/kotlin/rpc_example.jar''] =
     [Some (File ''cdylib''),
      Some (File ''https://repo1.maven.org/maven2/net/java/dev/jna/jna/5.14.0/jna-5.14.0.jar''),
      Some (File ''https://repo1.maven.org/maven2/org/jetbrains/kotlinx/kotlinx-coroutines-core-jvm/1.6.4/kotlinx-coroutines-core-jvm-1.6.4.jar''),
      Some (File ''bindings''),
      None] \<and>
   stdout (snd (main (toolchain ''dll'') ''Windows'' Map.empty fresh_checkout)) =
     [''[INFO] Building library...'',
      ''[COMMAND] cargo build -p rpc_example --release'',
      ''[INFO] Generating Kotlin binding...'',
      ''[COMMAND] cargo run -p rpc_example --features=uniffi/cli --bin uniffi-bindgen generate --library ./target/release/rpc_example.dll --language kotlin --out-dir ./rpc_example/kotlin'',
      ''[INFO] Copying cdylib to output directory...'',
      ''[COMMAND] cp ./target/release/rpc_example.dll ./rpc_example/kotlin/rpc_example.dll'',
      ''[COMMAND] curl -L https://repo1.maven.org/maven2/net/java/dev/jna/jna/5.14.0/jna-5.14.0.jar -o ./rpc_example/kotlin/vendor/jna.jar'',
      ''[COMMAND] curl -L https://repo1.maven.org/maven2/org/jetbrains/kotlinx/kotlinx-coroutines-core-jvm/1.6.4/kotlinx-coroutines-core-jvm-1.6.4.jar -o ./rpc_example/kotlin/vendor/kotlinx-coroutines.jar'',
      ''[INFO] Building Kotlin JAR...'',
      ''[COMMAND] kotlinc.bat -Werror -d ./rpc_example/kotlin/rpc_example.jar ./rpc_example/kotlin/uniffi/rpc_example/rpc_example.kt -classpath ''
         @ dquote @ ''./rpc_example/kotlin/vendor/jna.jar;./rpc_example/kotlin/vendor/kotlinx-coroutines.jar'' @ dquote,
      ''[INFO] Executing tests...'',
      ''[INFO] Running blocking_test.kts ...'',
      ''[COMMAND] kotlinc.bat -Werror -J-ea -classpath '' @ dquote
         @ ''./rpc_example/kotlin/vendor/jna.jar;./rpc_example/kotlin/vendor/kotlinx-coroutines.jar;./rpc_example/kotlin/rpc_example.jar;./rpc_example/kotlin''
         @ dquote @ '' -script ./rpc_example/tests/blocking_test.kts'']"
  by code_simp

section \<open>The Binding Generator\<close>

text \<open>
  Claim C4 says that the second of two runs of \<^verbatim>\<open>generate_binding\<close> in a row first
  removes everything the first run produced into the bindings output directory. Below,
  the first run is on a checkout with the library built, with a generator that works: it
  leaves the bindings source \<^verbatim>\<open>./rpc_example/kotlin/uniffi/rpc_example/rpc_example.kt\<close>,
  where \<^verbatim>\<open>build_jar\<close> reads it. The second run is with a generator that fails and
  writes nothing, so what it leaves is what its own pre-delete step left. The first
  run's bindings source is still there: the pre-delete step looks at
  \<^verbatim>\<open>./rpc_example/kotlin/rpc_example\<close>, which is not where the generator writes.
\<close>

theorem second_run_keeps_first_bindings:
  "fst (generate_binding (toolchain ''dll'') ''dll'' built_checkout) = Inr () \<and>
   files (snd (generate_binding (toolchain ''dll'') ''dll'' built_checkout))
     ''./rpc_example/kotlin/uniffi/rpc_example/rpc_example.kt'' = Some (File ''bindings'') \<and>
   fst (generate_binding (no_tool 1) ''dll''
          (snd (generate_binding (toolchain ''dll'') ''dll'' built_checkout))) = Inr () \<and>
   files (snd (generate_binding (no_tool 1) ''dll''
                 (snd (generate_binding (toolchain ''dll'') ''dll'' built_checkout))))
     ''./rpc_example/kotlin/uniffi/rpc_example/rpc_example.kt'' = Some (File ''bindings'')"
  by code_simp

end
